theory Spec2Isabelle
  imports Main "HOL-Library.Word"
begin

section \<open>Auto-forming ESP-NOW mesh: the model of automesh.py\<close>

text \<open>
  The class \<open>Mesh\<close> of automesh.py keeps a dictionary \<open>peers\<close> (address to \<open>Peer\<close>), a flag
  \<open>is_in_mesh\<close> and a handle \<open>mesh\<close> on the ESP-NOW driver. Its methods are coroutines of one
  cooperative scheduler; each is modelled as a function on the state of the object.
  Exceptions are values: a method that can let one escape returns \<open>Raised e s\<close>, with the
  state the object is left in. What the program does to the outside world (frames handed to
  the driver, timed sleeps) is appended to a trace; a sleep is recorded when it is called.
  Console output is not modelled, nor are \<open>wifi_reset\<close> and \<open>remove_all_peers\<close>, which nothing
  calls after the radio is up.

  The notifier calls \<open>send_message\<close> only for addresses the driver has registered, and only
  that call can remove the registration. While the call waits for the driver or sleeps the
  scheduler may run the receiver, which writes the driver's list and the dictionary only for
  a sender that is not registered: it leaves alone the entry the call is working on. The
  model therefore runs \<open>send_message\<close> from its call to its return. The beacon loop is split
  where it is suspended, between its test of the flag and its frame.
\<close>

subsection \<open>Data\<close>

type_synonym bytes = "8 word list"

type_synonym mac = bytes

text \<open>\<open>class Peer\<close>: \<open>last_seen\<close> holds the reading of \<open>datetime.utcnow()\<close>, a number here.\<close>

record Peer =
  mac_address :: mac
  failure_count :: int
  last_seen :: nat

datatype py_error = KeyError | OSError | TypeError | UnicodeError

datatype event = EvSend mac string bool | EvSleep nat

text \<open>
  The driver object \<open>aioespnow.AIOESPNow()\<close>: whether it is active, its own peer list (the
  addresses registered at the link layer, oldest first) and how many frames it was handed.
\<close>

record transport =
  active :: bool
  link_peers :: "mac list"
  sent :: nat

record Mesh =
  is_in_mesh :: bool
  peers :: "mac \<rightharpoonup> Peer"
  mesh :: transport
  trace :: "event list"

datatype result = Done Mesh | Raised py_error Mesh

text \<open>
  What the program cannot decide: the size of the driver's peer list, whether the radio can
  be activated, whether the \<open>k\<close>-th frame handed to the driver (counted from 0) is
  acknowledged, and which payloads \<open>bytes.decode()\<close> accepts (the strictness of the UTF-8
  codec differs between Python implementations).
\<close>

record environment =
  capacity :: nat
  can_activate :: bool
  send_ok :: "nat \<Rightarrow> bool"
  decodes :: "bytes \<Rightarrow> bool"

definition BROADCAST_ADDR :: mac where
  "BROADCAST_ADDR = [0xFF, 0xFF, 0xFF, 0xFF, 0xFF, 0xFF]"

subsection \<open>The driver\<close>

text \<open>
  Modelled from the spec: the driver (modules \<open>aioespnow\<close>, \<open>network\<close>) is not part of the
  repository. Section 4.2 and 7 of the specification give its contract: looking up or
  removing an address that is not registered fails, registering fails when the driver
  refuses it (the address is registered already, or the list is full), and \<open>send\<close> answers
  with a boolean. \<open>get_peers\<close> lists the registered addresses (the component \<open>peer[0]\<close> of its
  entries), oldest first; only the evaluations at example states below depend on that
  order. Of the driver's methods only \<open>asend\<close> is a coroutine; \<open>active\<close>, \<open>add_peer\<close>,
  \<open>get_peer\<close>, \<open>del_peer\<close> and \<open>get_peers\<close> are plain calls, as the program itself uses them in
  \<open>start\<close>, \<open>receiver_task\<close>, \<open>add_peer\<close> and \<open>notify_task\<close>.
\<close>

definition mesh_get_peer :: "transport \<Rightarrow> mac \<Rightarrow> py_error + unit" where
  "mesh_get_peer t a = (if a \<in> set (link_peers t) then Inr () else Inl OSError)"

definition mesh_add_peer :: "environment \<Rightarrow> transport \<Rightarrow> mac \<Rightarrow> py_error + transport" where
  "mesh_add_peer env t a =
     (if a \<in> set (link_peers t) \<or> capacity env \<le> length (link_peers t) then Inl OSError
      else Inr (t\<lparr>link_peers := link_peers t @ [a]\<rparr>))"

definition mesh_del_peer :: "transport \<Rightarrow> mac \<Rightarrow> py_error + transport" where
  "mesh_del_peer t a =
     (if a \<in> set (link_peers t) then Inr (t\<lparr>link_peers := removeAll a (link_peers t)\<rparr>)
      else Inl OSError)"

definition mesh_get_peers :: "transport \<Rightarrow> mac list" where
  "mesh_get_peers t = link_peers t"

definition mesh_asend :: "environment \<Rightarrow> transport \<Rightarrow> bool \<times> transport" where
  "mesh_asend env t = (send_ok env (sent t), t\<lparr>sent := Suc (sent t)\<rparr>)"

text \<open>
  \<open>await v\<close> for the value \<open>v\<close> a plain call returned (a tuple, \<open>None\<close>): the value cannot be
  awaited, and the expression raises \<open>TypeError\<close> after the call has had its effect.
\<close>

definition await_value :: "py_error + unit" where
  "await_value = Inl TypeError"

subsection \<open>The methods of \<open>Mesh\<close>\<close>

definition Peer_init :: "mac \<Rightarrow> nat \<Rightarrow> Peer" where
  "Peer_init a now = \<lparr>mac_address = a, failure_count = 0, last_seen = now\<rparr>"

definition Mesh_init :: Mesh where
  "Mesh_init =
     \<lparr>is_in_mesh = False, peers = Map.empty,
      mesh = \<lparr>active = False, link_peers = [], sent = 0\<rparr>, trace = []\<rparr>"

text \<open>\<open>await self.mesh.asend(a, data)\<close>: the frame goes to the driver, which answers.\<close>

definition asend :: "environment \<Rightarrow> mac \<Rightarrow> string \<Rightarrow> Mesh \<Rightarrow> bool \<times> Mesh" where
  "asend env a data s =
     (let (ok, t) = mesh_asend env (mesh s)
      in (ok, s\<lparr>mesh := t, trace := trace s @ [EvSend a data ok]\<rparr>))"

definition asyncio_sleep :: "nat \<Rightarrow> Mesh \<Rightarrow> Mesh" where
  "asyncio_sleep d s = s\<lparr>trace := trace s @ [EvSleep d]\<rparr>"

text \<open>\<open>start\<close>, up to the creation of the three tasks: nothing is caught here.\<close>

definition start :: "environment \<Rightarrow> Mesh \<Rightarrow> result" where
  "start env s =
     (if \<not> can_activate env then Raised OSError s
      else
        let s1 = s\<lparr>mesh := (mesh s)\<lparr>active := True\<rparr>\<rparr>
        in case mesh_add_peer env (mesh s1) BROADCAST_ADDR of
             Inl e \<Rightarrow> Raised e s1
           | Inr t \<Rightarrow> Done (s1\<lparr>mesh := t\<rparr>))"

definition broadcast :: "environment \<Rightarrow> string \<Rightarrow> Mesh \<Rightarrow> Mesh" where
  "broadcast env data s = snd (asend env BROADCAST_ADDR data s)"

text \<open>
  \<open>add_peer\<close>. The handler of the outer \<open>try\<close>: the inner \<open>try\<close>, which catches every
  exception. The dictionary is written only after the driver accepted the address; the
  assignment replaces an entry the dictionary may already hold.
\<close>

definition add_peer_handler :: "environment \<Rightarrow> nat \<Rightarrow> mac \<Rightarrow> Mesh \<Rightarrow> Mesh" where
  "add_peer_handler env now a s =
     (case mesh_add_peer env (mesh s) a of
        Inr t \<Rightarrow> s\<lparr>mesh := t, peers := (peers s)(a \<mapsto> Peer_init a now)\<rparr>
      | Inl _ \<Rightarrow> s)"

text \<open>
  The outer \<open>try\<close> is \<open>await self.mesh.get_peer(peer_address)\<close>: \<open>get_peer\<close> raises for an
  address that is not registered, and the \<open>await\<close> of the tuple it returns raises otherwise.
\<close>

definition add_peer :: "environment \<Rightarrow> nat \<Rightarrow> mac \<Rightarrow> Mesh \<Rightarrow> Mesh" where
  "add_peer env now a s =
     (case mesh_get_peer (mesh s) a of
        Inl _ \<Rightarrow> add_peer_handler env now a s
      | Inr _ \<Rightarrow>
          (case await_value of
             Inl _ \<Rightarrow> add_peer_handler env now a s
           | Inr _ \<Rightarrow> s))"

text \<open>
  \<open>remove_peer\<close>: when the driver refuses, nothing changes. When it has removed the address,
  \<open>await\<close> is applied to the \<open>None\<close> it returned; the exception is caught and
  \<open>del self.peers[peer_address]\<close> is not reached. (That statement would itself raise a caught
  \<open>KeyError\<close> for an address without an entry.)
\<close>

definition remove_peer :: "mac \<Rightarrow> Mesh \<Rightarrow> Mesh" where
  "remove_peer a s =
     (case mesh_del_peer (mesh s) a of
        Inl _ \<Rightarrow> s
      | Inr t \<Rightarrow>
          (case await_value of
             Inl _ \<Rightarrow> s\<lparr>mesh := t\<rparr>
           | Inr _ \<Rightarrow>
               (case peers s a of
                  None \<Rightarrow> s\<lparr>mesh := t\<rparr>
                | Some _ \<Rightarrow> s\<lparr>mesh := t, peers := (peers s)(a := None)\<rparr>)))"

text \<open>
  \<open>send_message\<close>: the \<open>while True\<close> loop. \<open>self.peers[peer_address]\<close> raises \<open>KeyError\<close> when
  the address is not a key, after the frame has gone out.
\<close>

function send_message :: "environment \<Rightarrow> string \<Rightarrow> mac \<Rightarrow> Mesh \<Rightarrow> result" where
  "send_message env message a s =
     (let (ok, s1) = asend env a message s
      in if ok then
           (case peers s1 a of
              None \<Rightarrow> Raised KeyError s1
            | Some p \<Rightarrow> Done (s1\<lparr>peers := (peers s1)(a \<mapsto> p\<lparr>failure_count := 0\<rparr>)\<rparr>))
         else
           (case peers s1 a of
              None \<Rightarrow> Raised KeyError s1
            | Some p \<Rightarrow>
                let s2 = s1\<lparr>peers := (peers s1)(a \<mapsto> p\<lparr>failure_count := failure_count p + 1\<rparr>)\<rparr>
                in if failure_count p + 1 \<ge> 5 then Done (remove_peer a s2)
                   else send_message env message a (asyncio_sleep 1 s2)))"
  by pat_completeness auto
termination
  by (relation "measure (\<lambda>(env, message, a, s).
        case peers s a of None \<Rightarrow> 0 | Some p \<Rightarrow> nat (5 - failure_count p))")
     (auto simp: asend_def mesh_asend_def asyncio_sleep_def split: prod.splits)

declare send_message.simps [simp del]

text \<open>
  \<open>receiver_task\<close>, one frame: the body of the \<open>async for\<close> loop. \<open>print(message.decode())\<close>
  stands outside every \<open>try\<close>: a payload the codec rejects raises \<open>UnicodeError\<close> before the
  sender is looked at.
\<close>

definition receiver_step :: "environment \<Rightarrow> nat \<Rightarrow> mac \<Rightarrow> bytes \<Rightarrow> Mesh \<Rightarrow> result" where
  "receiver_step env now sender_mac message s =
     (if \<not> decodes env message then Raised UnicodeError s
      else
        (case mesh_get_peer (mesh s) sender_mac of
           Inr _ \<Rightarrow> Done s
         | Inl _ \<Rightarrow> Done ((add_peer env now sender_mac s)\<lparr>is_in_mesh := True\<rparr>)))"

text \<open>
  \<open>beacon_task\<close>: the test of \<open>while not self.is_in_mesh\<close>, and what one passage through the
  loop does once the driver takes the frame: the frame, then the call of the sleep.
\<close>

definition beacon_test :: "Mesh \<Rightarrow> bool" where
  "beacon_test s = (\<not> is_in_mesh s)"

definition beacon_body :: "environment \<Rightarrow> Mesh \<Rightarrow> Mesh" where
  "beacon_body env s = asyncio_sleep 1 (broadcast env ''--hello--'' s)"

text \<open>
  \<open>notify_task\<close>, one turn of its \<open>while True\<close> loop: the \<open>for\<close> loop over the list the driver
  returned, then the sleep. An exception of \<open>send_message\<close> leaves both loops.
\<close>

fun notify_peers :: "environment \<Rightarrow> mac list \<Rightarrow> Mesh \<Rightarrow> result" where
  "notify_peers env [] s = Done s"
| "notify_peers env (a # as) s =
     (case send_message env ''Hi'' a s of
        Raised e s' \<Rightarrow> Raised e s'
      | Done s' \<Rightarrow> notify_peers env as s')"

definition notify_cycle :: "environment \<Rightarrow> Mesh \<Rightarrow> result" where
  "notify_cycle env s =
     (case notify_peers env (mesh_get_peers (mesh s)) s of
        Raised e s' \<Rightarrow> Raised e s'
      | Done s' \<Rightarrow> Done (asyncio_sleep 5 s'))"

subsection \<open>The three tasks under the scheduler\<close>

text \<open>
  \<open>start\<close> creates \<open>beacon_task\<close> and \<open>notify_task\<close> and awaits \<open>receiver_task\<close>. The scheduler
  is an input: a list saying which task takes the next turn. A turn of the receiver is one
  frame; a turn of the notifier is one cycle. The beacon is suspended in two places: in
  \<open>asend\<close>, after its test of the flag and before the frame goes out (\<open>Sending\<close>), and in
  its sleep, after which it tests the flag (\<open>Testing\<close>, which is also where it starts). A
  task whose coroutine has returned or raised takes no further turn, and when the receiver
  has raised, \<open>start\<close> raises and the program is over: no task takes a turn.
\<close>

datatype task = Running | Finished | Crashed py_error

datatype beacon_pc = Testing | Sending | Exited

record system =
  node :: Mesh
  beacon :: beacon_pc
  notifier :: task
  receiver :: task

datatype input = Frame nat mac bytes | BeaconTurn | NotifyTurn

fun state_of :: "result \<Rightarrow> Mesh" where
  "state_of (Done s) = s"
| "state_of (Raised e s) = s"

fun turn :: "environment \<Rightarrow> input \<Rightarrow> system \<Rightarrow> system" where
  "turn env (Frame now sender_mac message) sys =
     (case receiver_step env now sender_mac message (node sys) of
        Done s' \<Rightarrow> sys\<lparr>node := s'\<rparr>
      | Raised e s' \<Rightarrow> sys\<lparr>node := s', receiver := Crashed e\<rparr>)"
| "turn env BeaconTurn sys =
     (case beacon sys of
        Testing \<Rightarrow>
          (if beacon_test (node sys) then sys\<lparr>beacon := Sending\<rparr> else sys\<lparr>beacon := Exited\<rparr>)
      | Sending \<Rightarrow> sys\<lparr>node := beacon_body env (node sys), beacon := Testing\<rparr>
      | Exited \<Rightarrow> sys)"
| "turn env NotifyTurn sys =
     (if notifier sys = Running then
        (case notify_cycle env (node sys) of
           Done s' \<Rightarrow> sys\<lparr>node := s'\<rparr>
         | Raised e s' \<Rightarrow> sys\<lparr>node := s', notifier := Crashed e\<rparr>)
      else sys)"

definition step :: "environment \<Rightarrow> input \<Rightarrow> system \<Rightarrow> system" where
  "step env i sys = (if receiver sys = Running then turn env i sys else sys)"

fun run :: "environment \<Rightarrow> input list \<Rightarrow> system \<Rightarrow> system" where
  "run env [] sys = sys"
| "run env (i # is) sys = run env is (step env i sys)"

definition booted :: "Mesh \<Rightarrow> system" where
  "booted s = \<lparr>node = s, beacon = Testing, notifier = Running, receiver = Running\<rparr>"

subsection \<open>Reading a trace\<close>

fun is_send :: "event \<Rightarrow> bool" where
  "is_send (EvSend a d ok) = True"
| "is_send (EvSleep t) = False"

fun is_beacon :: "event \<Rightarrow> bool" where
  "is_beacon (EvSend a d ok) = (a = BROADCAST_ADDR \<and> d = ''--hello--'')"
| "is_beacon (EvSleep t) = False"

text \<open>The beacon frames of a trace, and the one the beacon task still owes when suspended.\<close>

definition beacons :: "event list \<Rightarrow> nat" where
  "beacons evs = length (filter is_beacon evs)"

fun pending :: "beacon_pc \<Rightarrow> nat" where
  "pending Sending = 1"
| "pending Testing = 0"
| "pending Exited = 0"

text \<open>
  The trace of one reliable send to \<open>a\<close>: attempts with payload \<open>m\<close>, every attempt but the
  last one failed and followed by a sleep of one time unit.
\<close>

fun backoff_trace :: "mac \<Rightarrow> string \<Rightarrow> event list \<Rightarrow> bool" where
  "backoff_trace a m [EvSend b d ok] = (b = a \<and> d = m)"
| "backoff_trace a m (EvSend b d ok # EvSleep t # evs) =
     (b = a \<and> d = m \<and> \<not> ok \<and> t = 1 \<and> backoff_trace a m evs)"
| "backoff_trace a m evs = False"

subsection \<open>Invariants\<close>

text \<open>Failure counts are never negative.\<close>

definition counts_inv :: "Mesh \<Rightarrow> bool" where
  "counts_inv s \<longleftrightarrow> (\<forall>a p. peers s a = Some p \<longrightarrow> 0 \<le> failure_count p)"

text \<open>The broadcast address stays registered and never becomes a key.\<close>

definition bcast_inv :: "Mesh \<Rightarrow> bool" where
  "bcast_inv s \<longleftrightarrow>
     BROADCAST_ADDR \<in> set (link_peers (mesh s)) \<and> peers s BROADCAST_ADDR = None"

subsection \<open>Example nodes, payloads and environments\<close>

definition node_A :: mac where
  "node_A = [0x24, 0x6F, 0x28, 0x01, 0x02, 0x03]"

definition node_B :: mac where
  "node_B = [0x24, 0x6F, 0x28, 0x0A, 0x0B, 0x0C]"

text \<open>The bytes of \<open>--hello--\<close>, and a payload no UTF-8 codec accepts.\<close>

definition hello_frame :: bytes where
  "hello_frame = [0x2D, 0x2D, 0x68, 0x65, 0x6C, 0x6C, 0x6F, 0x2D, 0x2D]"

definition bad_frame :: bytes where
  "bad_frame = [0xFF]"

text \<open>
  Well-formed UTF-8 (RFC 3629), the codec of the example environments: no overlong forms,
  no surrogates, nothing above U+10FFFF.
\<close>

definition utf8_cont :: "8 word \<Rightarrow> bool" where
  "utf8_cont c = (0x80 \<le> c \<and> c \<le> 0xBF)"

definition utf8_second :: "8 word \<Rightarrow> 8 word \<Rightarrow> bool" where
  "utf8_second b c =
     (if b = 0xE0 then 0xA0 \<le> c \<and> c \<le> 0xBF
      else if b = 0xED then 0x80 \<le> c \<and> c \<le> 0x9F
      else if b = 0xF0 then 0x90 \<le> c \<and> c \<le> 0xBF
      else if b = 0xF4 then 0x80 \<le> c \<and> c \<le> 0x8F
      else utf8_cont c)"

fun utf8_valid :: "bytes \<Rightarrow> bool" where
  "utf8_valid [] = True"
| "utf8_valid (b # bs) =
     (if b \<le> 0x7F then utf8_valid bs
      else if 0xC2 \<le> b \<and> b \<le> 0xDF then
        (case bs of c # r \<Rightarrow> utf8_cont c \<and> utf8_valid r | _ \<Rightarrow> False)
      else if 0xE0 \<le> b \<and> b \<le> 0xEF then
        (case bs of c # d # r \<Rightarrow> utf8_second b c \<and> utf8_cont d \<and> utf8_valid r | _ \<Rightarrow> False)
      else if 0xF0 \<le> b \<and> b \<le> 0xF4 then
        (case bs of
           c # d # e # r \<Rightarrow> utf8_second b c \<and> utf8_cont d \<and> utf8_cont e \<and> utf8_valid r
         | _ \<Rightarrow> False)
      else False)"

text \<open>A driver with room for 20 addresses; no frame is ever acknowledged.\<close>

definition env_silent :: environment where
  "env_silent =
     \<lparr>capacity = 20, can_activate = True, send_ok = (\<lambda>k. False), decodes = utf8_valid\<rparr>"

text \<open>The same driver; the first two frames are lost, every later one is acknowledged.\<close>

definition env_flaky :: environment where
  "env_flaky =
     \<lparr>capacity = 20, can_activate = True, send_ok = (\<lambda>k. 2 \<le> k), decodes = utf8_valid\<rparr>"

text \<open>A driver whose list is full once the broadcast address is registered.\<close>

definition env_full :: environment where
  "env_full =
     \<lparr>capacity = 1, can_activate = True, send_ok = (\<lambda>k. True), decodes = utf8_valid\<rparr>"

text \<open>
  The node after \<open>start\<close>; after it then heard \<open>--hello--\<close> from \<open>node_A\<close> at time 7; and after
  a reliable send to \<open>node_A\<close> then failed five times.
\<close>

definition started :: Mesh where
  "started = state_of (start env_silent Mesh_init)"

definition joined_A :: Mesh where
  "joined_A = state_of (receiver_step env_silent 7 node_A hello_frame started)"

definition stale_A :: Mesh where
  "stale_A = state_of (send_message env_silent ''Hi'' node_A joined_A)"

section \<open>Properties\<close>

subsection \<open>One passage through the loop of \<open>send_message\<close>\<close>

lemma asend_fst [simp]: "fst (asend env a m s) = send_ok env (sent (mesh s))"
  by (simp add: asend_def mesh_asend_def)

lemma asend_snd:
  "snd (asend env a m s) =
     s\<lparr>mesh := (mesh s)\<lparr>sent := Suc (sent (mesh s))\<rparr>,
       trace := trace s @ [EvSend a m (send_ok env (sent (mesh s)))]\<rparr>"
  by (simp add: asend_def mesh_asend_def)

text \<open>What \<open>remove_peer\<close> comes to: the registration goes, the dictionary stays.\<close>

lemma remove_peer_eq:
  "remove_peer a s = s\<lparr>mesh := (mesh s)\<lparr>link_peers := removeAll a (link_peers (mesh s))\<rparr>\<rparr>"
  by (simp add: remove_peer_def mesh_del_peer_def await_value_def)

text \<open>What \<open>add_peer\<close> comes to: its handler, on every path.\<close>

lemma add_peer_eq: "add_peer env now a s = add_peer_handler env now a s"
  by (simp add: add_peer_def await_value_def split: sum.splits)

lemma send_message_unknown:
  "peers s a = None \<Longrightarrow> send_message env m a s = Raised KeyError (snd (asend env a m s))"
  by (simp add: send_message.simps asend_def mesh_asend_def)

lemma send_message_ok:
  "peers s a = Some p \<Longrightarrow> send_ok env (sent (mesh s)) \<Longrightarrow>
   send_message env m a s =
     Done ((snd (asend env a m s))\<lparr>peers := (peers s)(a \<mapsto> p\<lparr>failure_count := 0\<rparr>)\<rparr>)"
  by (simp add: send_message.simps asend_def mesh_asend_def)

lemma send_message_evict:
  "peers s a = Some p \<Longrightarrow> \<not> send_ok env (sent (mesh s)) \<Longrightarrow> 5 \<le> failure_count p + 1 \<Longrightarrow>
   send_message env m a s =
     Done (remove_peer a
       ((snd (asend env a m s))\<lparr>peers := (peers s)(a \<mapsto> p\<lparr>failure_count := failure_count p + 1\<rparr>)\<rparr>))"
  by (simp add: send_message.simps asend_def mesh_asend_def)

lemma send_message_retry:
  "peers s a = Some p \<Longrightarrow> \<not> send_ok env (sent (mesh s)) \<Longrightarrow> failure_count p + 1 < 5 \<Longrightarrow>
   send_message env m a s =
     send_message env m a (asyncio_sleep 1
       ((snd (asend env a m s))\<lparr>peers := (peers s)(a \<mapsto> p\<lparr>failure_count := failure_count p + 1\<rparr>)\<rparr>))"
  by (subst send_message.simps) (simp add: asend_def mesh_asend_def)

subsection \<open>The whole loop\<close>

text \<open>
  A reliable send to a key of the dictionary returns normally. Its last attempt either
  succeeded, and the count is 0, or failed, and the count, raised by the number of
  attempts, has reached the threshold and the registration is gone.
\<close>

lemma send_message_effect:
  "peers s a = Some p \<Longrightarrow>
   \<exists>s' evs. send_message env m a s = Done s' \<and> is_in_mesh s' = is_in_mesh s \<and>
     active (mesh s') = active (mesh s) \<and>
     trace s' = trace s @ evs \<and> backoff_trace a m evs \<and>
     sent (mesh s') = sent (mesh s) + length (filter is_send evs) \<and>
     int (length (filter is_send evs)) \<le> max 1 (5 - failure_count p) \<and>
     ((last evs = EvSend a m True \<and> peers s' = (peers s)(a \<mapsto> p\<lparr>failure_count := 0\<rparr>) \<and>
       link_peers (mesh s') = link_peers (mesh s)) \<or>
      (last evs = EvSend a m False \<and>
       5 \<le> failure_count p + int (length (filter is_send evs)) \<and>
       peers s' = (peers s)(a \<mapsto>
          p\<lparr>failure_count := failure_count p + int (length (filter is_send evs))\<rparr>) \<and>
       link_peers (mesh s') = removeAll a (link_peers (mesh s))))"
proof (induction "nat (5 - failure_count p)" arbitrary: s p rule: less_induct)
  case less
  let ?n = "sent (mesh s)"
  show ?case
  proof (cases "send_ok env ?n")
    case True
    show ?thesis
      apply (rule exI[of _ "(snd (asend env a m s))\<lparr>peers := (peers s)(a \<mapsto> p\<lparr>failure_count := 0\<rparr>)\<rparr>"])
      apply (rule exI[of _ "[EvSend a m True]"])
      using True less.prems by (simp add: send_message_ok asend_snd)
  next
    case False
    let ?p = "p\<lparr>failure_count := failure_count p + 1\<rparr>"
    let ?s2 = "(snd (asend env a m s))\<lparr>peers := (peers s)(a \<mapsto> ?p)\<rparr>"
    show ?thesis
    proof (cases "5 \<le> failure_count p + 1")
      case True
      show ?thesis
        apply (rule exI[of _ "remove_peer a ?s2"])
        apply (rule exI[of _ "[EvSend a m False]"])
        using True False less.prems
        by (simp add: send_message_evict remove_peer_eq asend_snd)
    next
      case small: False
      let ?s3 = "asyncio_sleep 1 ?s2"
      have p3: "peers ?s3 a = Some ?p"
        by (simp add: asyncio_sleep_def asend_snd)
      have "nat (5 - failure_count ?p) < nat (5 - failure_count p)"
        using small by simp
      from less.hyps[OF this p3]
      obtain s' evs where IH: "send_message env m a ?s3 = Done s'" "is_in_mesh s' = is_in_mesh ?s3"
        "active (mesh s') = active (mesh ?s3)"
        "trace s' = trace ?s3 @ evs" "backoff_trace a m evs"
        "sent (mesh s') = sent (mesh ?s3) + length (filter is_send evs)"
        "int (length (filter is_send evs)) \<le> max 1 (5 - failure_count ?p)"
        "(last evs = EvSend a m True \<and> peers s' = (peers ?s3)(a \<mapsto> ?p\<lparr>failure_count := 0\<rparr>) \<and>
           link_peers (mesh s') = link_peers (mesh ?s3)) \<or>
         (last evs = EvSend a m False \<and>
           5 \<le> failure_count ?p + int (length (filter is_send evs)) \<and>
           peers s' = (peers ?s3)(a \<mapsto>
             ?p\<lparr>failure_count := failure_count ?p + int (length (filter is_send evs))\<rparr>) \<and>
           link_peers (mesh s') = removeAll a (link_peers (mesh ?s3)))"
        by blast
      have ne: "evs \<noteq> []" using IH(5) by (cases evs) auto
      have eq: "send_message env m a s = Done s'"
        using send_message_retry[of s a p env m] less.prems False small IH(1) by simp
      show ?thesis
        apply (rule exI[of _ s'])
        apply (rule exI[of _ "EvSend a m False # EvSleep 1 # evs"])
        using eq IH(2-8) small False ne
        by (auto simp: asyncio_sleep_def asend_snd add.commute add.left_commute)
    qed
  qed
qed

text \<open>Every attempt fails: the loop runs until the count reaches the threshold.\<close>

lemma send_message_all_fail:
  "peers s a = Some p \<Longrightarrow>
   \<forall>i. int i < max 1 (5 - failure_count p) \<longrightarrow> \<not> send_ok env (sent (mesh s) + i) \<Longrightarrow>
   \<exists>s' evs. send_message env m a s = Done s' \<and>
     peers s' = (peers s)(a \<mapsto>
        p\<lparr>failure_count := failure_count p + int (nat (max 1 (5 - failure_count p)))\<rparr>) \<and>
     link_peers (mesh s') = removeAll a (link_peers (mesh s)) \<and>
     is_in_mesh s' = is_in_mesh s \<and> active (mesh s') = active (mesh s) \<and>
     trace s' = trace s @ evs \<and>
     filter is_send evs = replicate (nat (max 1 (5 - failure_count p))) (EvSend a m False) \<and>
     sent (mesh s') = sent (mesh s) + nat (max 1 (5 - failure_count p))"
proof (induction "nat (5 - failure_count p)" arbitrary: s p rule: less_induct)
  case less
  have False0: "\<not> send_ok env (sent (mesh s))" using less.prems(2)[rule_format, of 0] by simp
  let ?p = "p\<lparr>failure_count := failure_count p + 1\<rparr>"
  let ?s2 = "(snd (asend env a m s))\<lparr>peers := (peers s)(a \<mapsto> ?p)\<rparr>"
  show ?case
  proof (cases "5 \<le> failure_count p + 1")
    case True
    show ?thesis
      apply (rule exI[of _ "remove_peer a ?s2"])
      apply (rule exI[of _ "[EvSend a m False]"])
      using True False0 less.prems(1)
      by (simp add: send_message_evict remove_peer_eq asend_snd max_def)
  next
    case small: False
    let ?s3 = "asyncio_sleep 1 ?s2"
    have p3: "peers ?s3 a = Some ?p"
      by (simp add: asyncio_sleep_def asend_snd)
    have lt: "nat (5 - failure_count ?p) < nat (5 - failure_count p)" using small by simp
    have orc: "\<forall>i. int i < max 1 (5 - failure_count ?p) \<longrightarrow> \<not> send_ok env (sent (mesh ?s3) + i)"
    proof (intro allI impI)
      fix i assume "int i < max 1 (5 - failure_count ?p)"
      then have "int (Suc i) < max 1 (5 - failure_count p)" using small by simp
      from less.prems(2)[rule_format, OF this]
      show "\<not> send_ok env (sent (mesh ?s3) + i)" by (simp add: asyncio_sleep_def asend_snd)
    qed
    from less.hyps[OF lt p3 orc]
    obtain s' evs where IH: "send_message env m a ?s3 = Done s'"
      "peers s' = (peers ?s3)(a \<mapsto>
         ?p\<lparr>failure_count := failure_count ?p + int (nat (max 1 (5 - failure_count ?p)))\<rparr>)"
      "link_peers (mesh s') = removeAll a (link_peers (mesh ?s3))"
      "is_in_mesh s' = is_in_mesh ?s3" "active (mesh s') = active (mesh ?s3)"
      "trace s' = trace ?s3 @ evs"
      "filter is_send evs = replicate (nat (max 1 (5 - failure_count ?p))) (EvSend a m False)"
      "sent (mesh s') = sent (mesh ?s3) + nat (max 1 (5 - failure_count ?p))"
      by blast
    have eq: "send_message env m a s = Done s'"
      using send_message_retry[of s a p env m] less.prems False0 small IH(1) by simp
    have k: "nat (max 1 (5 - failure_count p)) = Suc (nat (max 1 (5 - failure_count ?p)))"
      using small by simp
    show ?thesis
      apply (rule exI[of _ s'])
      apply (rule exI[of _ "EvSend a m False # EvSleep 1 # evs"])
      using eq IH(2-8) False0 k small
      by (simp add: asyncio_sleep_def asend_snd nat_diff_distrib replicate_Suc[symmetric]
          del: replicate_Suc)
  qed
qed

text \<open>The first acknowledged attempt is attempt \<open>k + 1\<close>, and the loop gets that far.\<close>

lemma send_message_success_at:
  "peers s a = Some p \<Longrightarrow> \<forall>i<k. \<not> send_ok env (sent (mesh s) + i) \<Longrightarrow>
   send_ok env (sent (mesh s) + k) \<Longrightarrow> k = 0 \<or> failure_count p + int k < 5 \<Longrightarrow>
   \<exists>s'. send_message env m a s = Done s' \<and> peers s' = (peers s)(a \<mapsto> p\<lparr>failure_count := 0\<rparr>) \<and>
     link_peers (mesh s') = link_peers (mesh s) \<and>
     sent (mesh s') = sent (mesh s) + k + 1 \<and>
     trace s' = trace s @ concat (replicate k [EvSend a m False, EvSleep 1]) @ [EvSend a m True]"
proof (induction k arbitrary: s p)
  case 0
  then show ?case by (auto simp: send_message_ok asend_snd)
next
  case (Suc k)
  have False0: "\<not> send_ok env (sent (mesh s))" using Suc.prems(2) by auto
  have small: "failure_count p + 1 < 5" using Suc.prems(4) by simp
  let ?p = "p\<lparr>failure_count := failure_count p + 1\<rparr>"
  let ?s3 = "asyncio_sleep 1 ((snd (asend env a m s))\<lparr>peers := (peers s)(a \<mapsto> ?p)\<rparr>)"
  have p3: "peers ?s3 a = Some ?p" by (simp add: asyncio_sleep_def)
  have n3: "sent (mesh ?s3) = Suc (sent (mesh s))" by (simp add: asyncio_sleep_def asend_snd)
  have f3: "\<forall>i<k. \<not> send_ok env (sent (mesh ?s3) + i)"
    using Suc.prems(2) n3 by (metis Suc_less_eq add_Suc_shift)
  have o3: "send_ok env (sent (mesh ?s3) + k)" using Suc.prems(3) n3 by simp
  have c3: "k = 0 \<or> failure_count ?p + int k < 5" using Suc.prems(4) by simp
  from Suc.IH[OF p3 f3 o3 c3]
  obtain s' where IH: "send_message env m a ?s3 = Done s'"
    "peers s' = (peers ?s3)(a \<mapsto> ?p\<lparr>failure_count := 0\<rparr>)"
    "link_peers (mesh s') = link_peers (mesh ?s3)"
    "sent (mesh s') = sent (mesh ?s3) + k + 1"
    "trace s' = trace ?s3 @ concat (replicate k [EvSend a m False, EvSleep 1]) @ [EvSend a m True]"
    by blast
  have eq: "send_message env m a s = Done s'"
    using send_message_retry[of s a p env m] Suc.prems(1) False0 small IH(1) by simp
  show ?case
    apply (rule exI[of _ s'])
    using eq IH(2-5) False0
    by (simp add: asyncio_sleep_def asend_snd)
qed

text \<open>The two ways a reliable send ends, for any address.\<close>

lemma send_message_cases:
  "(peers s a = None \<and> send_message env m a s = Raised KeyError (snd (asend env a m s))) \<or>
   (\<exists>p s' evs c. peers s a = Some p \<and> send_message env m a s = Done s' \<and>
      is_in_mesh s' = is_in_mesh s \<and> active (mesh s') = active (mesh s) \<and>
      trace s' = trace s @ evs \<and> backoff_trace a m evs \<and>
      ((peers s' = (peers s)(a \<mapsto> p\<lparr>failure_count := 0\<rparr>) \<and>
        link_peers (mesh s') = link_peers (mesh s)) \<or>
       (5 \<le> c \<and> peers s' = (peers s)(a \<mapsto> p\<lparr>failure_count := c\<rparr>) \<and>
        link_peers (mesh s') = removeAll a (link_peers (mesh s)))))"
proof (cases "peers s a")
  case None
  then show ?thesis by (simp add: send_message_unknown)
next
  case (Some p)
  from send_message_effect[OF Some, of env m] Some show ?thesis by blast
qed

subsection \<open>The flag and the beacon frames\<close>

lemma remove_peer_frame [simp]:
  "is_in_mesh (remove_peer a s) = is_in_mesh s" "trace (remove_peer a s) = trace s"
  "peers (remove_peer a s) = peers s"
  by (simp_all add: remove_peer_eq)

lemma add_peer_frame [simp]:
  "is_in_mesh (add_peer env now a s) = is_in_mesh s" "trace (add_peer env now a s) = trace s"
  by (simp_all add: add_peer_eq add_peer_handler_def split: sum.splits)

lemma backoff_trace_no_beacon:
  "backoff_trace a m evs \<Longrightarrow> m \<noteq> ''--hello--'' \<Longrightarrow> filter is_beacon evs = []"
  by (induction a m evs rule: backoff_trace.induct) auto

text \<open>Neither the flag nor the beacon frames of the trace depend on a reliable send.\<close>

lemma send_message_frame:
  "is_in_mesh (state_of (send_message env m a s)) = is_in_mesh s \<and>
   (m \<noteq> ''--hello--'' \<longrightarrow>
      beacons (trace (state_of (send_message env m a s))) = beacons (trace s))"
  using send_message_cases[of s a env m]
  by (auto simp: asend_snd beacons_def backoff_trace_no_beacon)

lemma notify_peers_frame:
  "is_in_mesh (state_of (notify_peers env as s)) = is_in_mesh s \<and>
   beacons (trace (state_of (notify_peers env as s))) = beacons (trace s)"
proof (induction as arbitrary: s)
  case Nil
  show ?case by simp
next
  case (Cons a as)
  have f: "is_in_mesh (state_of (send_message env ''Hi'' a s)) = is_in_mesh s"
    "beacons (trace (state_of (send_message env ''Hi'' a s))) = beacons (trace s)"
    using send_message_frame[of env "''Hi''" a s] by simp_all
  show ?case
  proof (cases "send_message env ''Hi'' a s")
    case (Done s1)
    with f Cons.IH[of s1] show ?thesis by simp
  next
    case (Raised e s1)
    with f show ?thesis by simp
  qed
qed

lemma notify_cycle_frame:
  "is_in_mesh (state_of (notify_cycle env s)) = is_in_mesh s \<and>
   beacons (trace (state_of (notify_cycle env s))) = beacons (trace s)"
  using notify_peers_frame[of env "mesh_get_peers (mesh s)" s]
  by (cases "notify_peers env (mesh_get_peers (mesh s)) s")
     (simp_all add: notify_cycle_def asyncio_sleep_def beacons_def)

lemma receiver_step_trace [simp]:
  "trace (state_of (receiver_step env now a msg s)) = trace s"
  by (simp add: receiver_step_def split: sum.splits)

lemma receiver_step_joined:
  "is_in_mesh s \<Longrightarrow> is_in_mesh (state_of (receiver_step env now a msg s))"
  by (simp add: receiver_step_def split: sum.splits)

lemma beacon_body_frame:
  "is_in_mesh (beacon_body env s) = is_in_mesh s"
  "peers (beacon_body env s) = peers s"
  "link_peers (mesh (beacon_body env s)) = link_peers (mesh s)"
  "trace (beacon_body env s) =
     trace s @ [EvSend BROADCAST_ADDR ''--hello--'' (send_ok env (sent (mesh s))), EvSleep 1]"
  by (simp_all add: beacon_body_def broadcast_def asend_snd asyncio_sleep_def)

lemma beacon_body_beacons: "beacons (trace (beacon_body env s)) = Suc (beacons (trace s))"
  by (simp add: beacon_body_frame beacons_def)

text \<open>The node after a turn, by task.\<close>

lemma turn_frame_node:
  "node (turn env (Frame now a msg) sys) = state_of (receiver_step env now a msg (node sys))"
  by (cases "receiver_step env now a msg (node sys)") simp_all

lemma turn_notify_node:
  "node (turn env NotifyTurn sys) =
     (if notifier sys = Running then state_of (notify_cycle env (node sys)) else node sys)"
  by (cases "notify_cycle env (node sys)") simp_all

lemma turn_beacon_node:
  "node (turn env BeaconTurn sys) =
     (if beacon sys = Sending then beacon_body env (node sys) else node sys)"
  by (cases "beacon sys") simp_all

lemma turn_beacon_pc:
  "beacon (turn env (Frame now a msg) sys) = beacon sys"
  "beacon (turn env NotifyTurn sys) = beacon sys"
  "beacon (turn env BeaconTurn sys) =
     (case beacon sys of
        Testing \<Rightarrow> if is_in_mesh (node sys) then Exited else Sending
      | Sending \<Rightarrow> Testing
      | Exited \<Rightarrow> Exited)"
  by (simp_all add: beacon_test_def split: result.splits beacon_pc.splits)

lemma turn_joined: "is_in_mesh (node sys) \<Longrightarrow> is_in_mesh (node (turn env i sys))"
proof (cases i)
  case (Frame now a msg)
  assume "is_in_mesh (node sys)"
  then show ?thesis unfolding Frame turn_frame_node by (rule receiver_step_joined)
next
  case BeaconTurn
  assume "is_in_mesh (node sys)"
  then show ?thesis unfolding BeaconTurn turn_beacon_node by (simp add: beacon_body_frame)
next
  case NotifyTurn
  assume "is_in_mesh (node sys)"
  then show ?thesis unfolding NotifyTurn turn_notify_node
    using notify_cycle_frame[of env "node sys"] by simp
qed

lemma step_joined: "is_in_mesh (node sys) \<Longrightarrow> is_in_mesh (node (step env i sys))"
  by (simp add: step_def turn_joined)

lemma run_joined: "is_in_mesh (node sys) \<Longrightarrow> is_in_mesh (node (run env ins sys))"
  by (induction ins arbitrary: sys) (simp_all add: step_joined)

text \<open>
  Once the flag is set, a turn neither adds a beacon frame beyond the one the beacon task
  owes, nor makes it owe another.
\<close>

lemma turn_joined_beacons:
  assumes "is_in_mesh (node sys)"
  shows "beacons (trace (node (turn env i sys))) + pending (beacon (turn env i sys)) =
         beacons (trace (node sys)) + pending (beacon sys)"
proof (cases i)
  case (Frame now a msg)
  show ?thesis unfolding Frame turn_frame_node turn_beacon_pc by simp
next
  case BeaconTurn
  show ?thesis unfolding BeaconTurn turn_beacon_node turn_beacon_pc
    using assms by (cases "beacon sys") (simp_all add: beacon_body_beacons)
next
  case NotifyTurn
  show ?thesis unfolding NotifyTurn turn_notify_node turn_beacon_pc
    using notify_cycle_frame[of env "node sys"] by simp
qed

lemma step_joined_beacons:
  "is_in_mesh (node sys) \<Longrightarrow>
   beacons (trace (node (step env i sys))) + pending (beacon (step env i sys)) =
   beacons (trace (node sys)) + pending (beacon sys)"
  by (simp add: step_def turn_joined_beacons)

lemma run_joined_beacons:
  "is_in_mesh (node sys) \<Longrightarrow>
   beacons (trace (node (run env ins sys))) + pending (beacon (run env ins sys)) =
   beacons (trace (node sys)) + pending (beacon sys)"
proof (induction ins arbitrary: sys)
  case Nil
  show ?case by simp
next
  case (Cons i ins)
  from Cons.IH[OF step_joined[OF Cons.prems], of env i] step_joined_beacons[OF Cons.prems, of env i]
  show ?case by simp
qed

text \<open>Once the flag is set, a beacon task that is not suspended in its send never is again.\<close>

lemma turn_joined_not_sending:
  assumes "is_in_mesh (node sys)" and "beacon sys \<noteq> Sending"
  shows "beacon (turn env i sys) \<noteq> Sending"
proof (cases i)
  case (Frame now a msg)
  show ?thesis unfolding Frame turn_beacon_pc using assms(2) .
next
  case BeaconTurn
  show ?thesis unfolding BeaconTurn turn_beacon_pc
    using assms by (cases "beacon sys") simp_all
next
  case NotifyTurn
  show ?thesis unfolding NotifyTurn turn_beacon_pc using assms(2) .
qed

lemma run_joined_not_sending:
  "is_in_mesh (node sys) \<Longrightarrow> beacon sys \<noteq> Sending \<Longrightarrow>
   beacon (run env ins sys) \<noteq> Sending"
proof (induction ins arbitrary: sys)
  case Nil
  then show ?case by simp
next
  case (Cons i ins)
  have "beacon (step env i sys) \<noteq> Sending"
    using turn_joined_not_sending[OF Cons.prems, of env i] Cons.prems(2) by (simp add: step_def)
  from Cons.IH[OF step_joined[OF Cons.prems(1)] this] show ?case by simp
qed

lemma pending_le_1: "pending pc \<le> 1"
  by (cases pc) simp_all

lemma pending_0: "pc \<noteq> Sending \<Longrightarrow> pending pc = 0"
  by (cases pc) simp_all

text \<open>A beacon task that has left its loop stays out and silent, whatever the flag.\<close>

lemma turn_exited:
  assumes "beacon sys = Exited"
  shows "beacon (turn env i sys) = Exited \<and>
         beacons (trace (node (turn env i sys))) = beacons (trace (node sys))"
proof (cases i)
  case (Frame now a msg)
  show ?thesis unfolding Frame turn_frame_node turn_beacon_pc using assms by simp
next
  case BeaconTurn
  show ?thesis unfolding BeaconTurn turn_beacon_node turn_beacon_pc using assms by simp
next
  case NotifyTurn
  show ?thesis unfolding NotifyTurn turn_notify_node turn_beacon_pc
    using assms notify_cycle_frame[of env "node sys"] by simp
qed

lemma run_exited:
  "beacon sys = Exited \<Longrightarrow>
   beacon (run env ins sys) = Exited \<and>
   beacons (trace (node (run env ins sys))) = beacons (trace (node sys))"
proof (induction ins arbitrary: sys)
  case Nil
  then show ?case by simp
next
  case (Cons i ins)
  have st: "beacon (step env i sys) = Exited \<and>
            beacons (trace (node (step env i sys))) = beacons (trace (node sys))"
    using turn_exited[OF Cons.prems, of env i] Cons.prems by (simp add: step_def)
  from Cons.IH[of "step env i sys"] st show ?case by simp
qed

subsection \<open>Failure counts are never negative\<close>

lemma counts_inv_init: "counts_inv Mesh_init"
  by (simp add: counts_inv_def Mesh_init_def)

lemma counts_inv_start: "counts_inv s \<Longrightarrow> counts_inv (state_of (start env s))"
  by (auto simp: counts_inv_def start_def mesh_add_peer_def Let_def)

lemma counts_inv_add_peer: "counts_inv s \<Longrightarrow> counts_inv (add_peer env now a s)"
  by (auto simp: counts_inv_def add_peer_eq add_peer_handler_def Peer_init_def
      split: sum.splits if_splits)

lemma counts_inv_receiver_step:
  "counts_inv s \<Longrightarrow> counts_inv (state_of (receiver_step env now a msg s))"
  using counts_inv_add_peer[of s env now a]
  by (auto simp: receiver_step_def counts_inv_def split: sum.splits)

lemma counts_inv_beacon_body: "counts_inv s \<Longrightarrow> counts_inv (beacon_body env s)"
  by (simp add: counts_inv_def beacon_body_frame)

lemma counts_inv_send_message:
  "counts_inv s \<Longrightarrow> counts_inv (state_of (send_message env m a s))"
  using send_message_cases[of s a env m]
  by (auto simp: counts_inv_def asend_snd split: if_splits)

lemma counts_inv_notify_peers:
  "counts_inv s \<Longrightarrow> counts_inv (state_of (notify_peers env as s))"
proof (induction as arbitrary: s)
  case Nil
  then show ?case by simp
next
  case (Cons a as)
  from counts_inv_send_message[OF Cons.prems, of env "''Hi''" a]
  show ?case
    by (cases "send_message env ''Hi'' a s") (simp_all add: Cons.IH)
qed

lemma counts_inv_notify_cycle:
  "counts_inv s \<Longrightarrow> counts_inv (state_of (notify_cycle env s))"
  using counts_inv_notify_peers[of s env "mesh_get_peers (mesh s)"]
  by (cases "notify_peers env (mesh_get_peers (mesh s)) s")
     (simp_all add: notify_cycle_def counts_inv_def asyncio_sleep_def)

lemma counts_inv_turn: "counts_inv (node sys) \<Longrightarrow> counts_inv (node (turn env i sys))"
proof (cases i)
  case (Frame now a msg)
  assume "counts_inv (node sys)"
  then show ?thesis unfolding Frame turn_frame_node by (rule counts_inv_receiver_step)
next
  case BeaconTurn
  assume "counts_inv (node sys)"
  then show ?thesis unfolding BeaconTurn turn_beacon_node by (simp add: counts_inv_beacon_body)
next
  case NotifyTurn
  assume "counts_inv (node sys)"
  then show ?thesis unfolding NotifyTurn turn_notify_node
    by (simp add: counts_inv_notify_cycle)
qed

lemma counts_inv_run: "counts_inv (node sys) \<Longrightarrow> counts_inv (node (run env ins sys))"
  by (induction ins arbitrary: sys) (simp_all add: step_def counts_inv_turn)

text \<open>Hence every count a started node ever holds is at least 0.\<close>

lemma counts_nonneg_reachable:
  "peers (node (run env ins (booted (state_of (start env Mesh_init))))) a = Some p \<Longrightarrow>
   0 \<le> failure_count p"
  using counts_inv_run[of "booted (state_of (start env Mesh_init))" env ins]
    counts_inv_start[OF counts_inv_init, of env]
  by (simp add: booted_def counts_inv_def)

subsection \<open>The broadcast address\<close>

lemma bcast_inv_start:
  "start env Mesh_init = Done s0 \<Longrightarrow> bcast_inv s0"
  by (auto simp: bcast_inv_def start_def Mesh_init_def mesh_add_peer_def Let_def
      split: if_splits)

lemma bcast_inv_receiver_step:
  "bcast_inv s \<Longrightarrow> bcast_inv (state_of (receiver_step env now a msg s))"
  by (auto simp: bcast_inv_def receiver_step_def add_peer_eq add_peer_handler_def
      mesh_get_peer_def mesh_add_peer_def split: if_splits)

lemma bcast_inv_beacon_body: "bcast_inv s \<Longrightarrow> bcast_inv (beacon_body env s)"
  by (simp add: bcast_inv_def beacon_body_frame)

lemma bcast_inv_send_message:
  "bcast_inv s \<Longrightarrow> bcast_inv (state_of (send_message env m a s))"
  using send_message_cases[of s a env m]
  by (auto simp: bcast_inv_def asend_snd)

lemma bcast_inv_notify_peers: "bcast_inv s \<Longrightarrow> bcast_inv (state_of (notify_peers env as s))"
proof (induction as arbitrary: s)
  case Nil
  then show ?case by simp
next
  case (Cons a as)
  from bcast_inv_send_message[OF Cons.prems, of env "''Hi''" a]
  show ?case
    by (cases "send_message env ''Hi'' a s") (simp_all add: Cons.IH)
qed

lemma bcast_inv_notify_cycle: "bcast_inv s \<Longrightarrow> bcast_inv (state_of (notify_cycle env s))"
  using bcast_inv_notify_peers[of s env "mesh_get_peers (mesh s)"]
  by (cases "notify_peers env (mesh_get_peers (mesh s)) s")
     (simp_all add: notify_cycle_def bcast_inv_def asyncio_sleep_def)

lemma bcast_inv_turn: "bcast_inv (node sys) \<Longrightarrow> bcast_inv (node (turn env i sys))"
proof (cases i)
  case (Frame now a msg)
  assume "bcast_inv (node sys)"
  then show ?thesis unfolding Frame turn_frame_node by (rule bcast_inv_receiver_step)
next
  case BeaconTurn
  assume "bcast_inv (node sys)"
  then show ?thesis unfolding BeaconTurn turn_beacon_node by (simp add: bcast_inv_beacon_body)
next
  case NotifyTurn
  assume "bcast_inv (node sys)"
  then show ?thesis unfolding NotifyTurn turn_notify_node
    by (simp add: bcast_inv_notify_cycle)
qed

lemma bcast_inv_run: "bcast_inv (node sys) \<Longrightarrow> bcast_inv (node (run env ins sys))"
  by (induction ins arbitrary: sys) (simp_all add: step_def bcast_inv_turn)

text \<open>A cycle that meets an address without an entry ends with \<open>KeyError\<close>.\<close>

lemma notify_peers_unknown:
  "b \<in> set as \<Longrightarrow> peers s b = None \<Longrightarrow> \<exists>s'. notify_peers env as s = Raised KeyError s'"
proof (induction as arbitrary: s)
  case Nil
  then show ?case by simp
next
  case (Cons a as)
  show ?case
  proof (cases "peers s a")
    case None
    then show ?thesis by (simp add: send_message_unknown)
  next
    case (Some p)
    with send_message_cases[of s a env "''Hi''"]
    obtain s' c where k: "send_message env ''Hi'' a s = Done s'"
      and ch: "peers s' = (peers s)(a \<mapsto> p\<lparr>failure_count := 0\<rparr>) \<or>
               peers s' = (peers s)(a \<mapsto> p\<lparr>failure_count := c\<rparr>)"
      by auto
    from Some Cons.prems(2) have ne: "b \<noteq> a" by auto
    with Cons.prems(1) have mem: "b \<in> set as" by simp
    from ch ne Cons.prems(2) have none: "peers s' b = None" by auto
    from Cons.IH[OF mem none] k show ?thesis by simp
  qed
qed

lemma notify_cycle_unknown:
  "b \<in> set (link_peers (mesh s)) \<Longrightarrow> peers s b = None \<Longrightarrow>
   \<exists>s'. notify_cycle env s = Raised KeyError s'"
  using notify_peers_unknown[of b "mesh_get_peers (mesh s)" s env]
  by (auto simp: notify_cycle_def mesh_get_peers_def)

subsection \<open>The example states\<close>

lemma node_neq [simp]:
  "node_A \<noteq> BROADCAST_ADDR" "BROADCAST_ADDR \<noteq> node_A"
  "node_B \<noteq> BROADCAST_ADDR" "BROADCAST_ADDR \<noteq> node_B"
  "node_A \<noteq> node_B" "node_B \<noteq> node_A"
  by (simp_all add: node_A_def node_B_def BROADCAST_ADDR_def)

lemma hello_decodes: "utf8_valid hello_frame"
  by (simp add: hello_frame_def)

lemma bad_frame_rejected: "\<not> utf8_valid bad_frame"
  by (simp add: bad_frame_def)

lemma started_eq:
  "started = \<lparr>is_in_mesh = False, peers = Map.empty,
      mesh = \<lparr>active = True, link_peers = [BROADCAST_ADDR], sent = 0\<rparr>, trace = []\<rparr>"
  by (simp add: started_def start_def Mesh_init_def env_silent_def mesh_add_peer_def)

lemma start_silent: "start env_silent Mesh_init = Done started"
  by (simp add: started_def start_def Mesh_init_def env_silent_def mesh_add_peer_def)

lemma start_full: "start env_full Mesh_init = Done started"
  by (simp add: started_def start_def Mesh_init_def env_silent_def env_full_def mesh_add_peer_def)

lemma joined_A_eq:
  "joined_A = \<lparr>is_in_mesh = True, peers = [node_A \<mapsto> Peer_init node_A 7],
      mesh = \<lparr>active = True, link_peers = [BROADCAST_ADDR, node_A], sent = 0\<rparr>, trace = []\<rparr>"
  by (simp add: joined_A_def started_eq receiver_step_def add_peer_eq add_peer_handler_def
      mesh_get_peer_def mesh_add_peer_def env_silent_def hello_decodes)

lemma receive_hello_started:
  "receiver_step env_silent 7 node_A hello_frame started = Done joined_A"
  by (simp add: joined_A_eq)
     (simp add: started_eq receiver_step_def add_peer_eq add_peer_handler_def
      mesh_get_peer_def mesh_add_peer_def env_silent_def hello_decodes)

lemma stale_A_eq:
  "stale_A = \<lparr>is_in_mesh = True,
      peers = [node_A \<mapsto> \<lparr>mac_address = node_A, failure_count = 5, last_seen = 7\<rparr>],
      mesh = \<lparr>active = True, link_peers = [BROADCAST_ADDR], sent = 5\<rparr>,
      trace = [EvSend node_A ''Hi'' False, EvSleep 1, EvSend node_A ''Hi'' False, EvSleep 1,
               EvSend node_A ''Hi'' False, EvSleep 1, EvSend node_A ''Hi'' False, EvSleep 1,
               EvSend node_A ''Hi'' False]\<rparr>"
  by (simp add: stale_A_def joined_A_eq send_message.simps asend_def mesh_asend_def
      asyncio_sleep_def remove_peer_eq env_silent_def Peer_init_def)

lemma send_stale_A: "send_message env_silent ''Hi'' node_A joined_A = Done stale_A"
  by (simp add: stale_A_eq)
     (simp add: joined_A_eq send_message.simps asend_def mesh_asend_def
      asyncio_sleep_def remove_peer_eq env_silent_def Peer_init_def)

section \<open>The claims\<close>

text \<open>
  C1 (the flag \<open>is_in_mesh\<close>), as amended. The flag is false in a new \<open>Mesh\<close>. A frame whose
  payload the codec rejects raises \<open>UnicodeError\<close> out of the receiver and changes nothing.
  Of the frames whose payload decodes: one from a sender that is registered with the driver
  changes nothing; one from a sender that is not registered sets the flag, whether or not
  the registration succeeds. When the driver accepts the address, the sender is registered
  and gets an entry with failure count 0 and the current time; when the driver refuses,
  neither the driver's list nor the dictionary changes, and the flag is set all the same.
  The receiver never clears the flag, and a turn of the beacon or of the notifier leaves it
  as it is.
\<close>

theorem joined_on_unregistered_sender:
  "\<not> is_in_mesh Mesh_init \<and>
   (\<not> decodes env message \<longrightarrow>
      receiver_step env now sender message s = Raised UnicodeError s) \<and>
   (decodes env message \<and> sender \<in> set (link_peers (mesh s)) \<longrightarrow>
      receiver_step env now sender message s = Done s) \<and>
   (decodes env message \<and> sender \<notin> set (link_peers (mesh s)) \<and>
    length (link_peers (mesh s)) < capacity env \<longrightarrow>
      receiver_step env now sender message s =
        Done (s\<lparr>mesh := (mesh s)\<lparr>link_peers := link_peers (mesh s) @ [sender]\<rparr>,
          peers := (peers s)(sender \<mapsto> \<lparr>mac_address = sender, failure_count = 0, last_seen = now\<rparr>),
          is_in_mesh := True\<rparr>)) \<and>
   (decodes env message \<and> sender \<notin> set (link_peers (mesh s)) \<and>
    capacity env \<le> length (link_peers (mesh s)) \<longrightarrow>
      receiver_step env now sender message s = Done (s\<lparr>is_in_mesh := True\<rparr>)) \<and>
   (is_in_mesh s \<longrightarrow> is_in_mesh (state_of (receiver_step env now sender message s))) \<and>
   is_in_mesh (node (step env BeaconTurn sys)) = is_in_mesh (node sys) \<and>
   is_in_mesh (node (step env NotifyTurn sys)) = is_in_mesh (node sys)"
proof -
  have b: "is_in_mesh (node (step env BeaconTurn sys)) = is_in_mesh (node sys)"
    by (simp add: step_def turn_beacon_node beacon_body_frame del: turn.simps)
  have n: "is_in_mesh (node (step env NotifyTurn sys)) = is_in_mesh (node sys)"
    using notify_cycle_frame[of env "node sys"]
    by (simp add: step_def turn_notify_node del: turn.simps)
  have j: "is_in_mesh s \<longrightarrow> is_in_mesh (state_of (receiver_step env now sender message s))"
    by (simp add: receiver_step_joined)
  show ?thesis using b n j
    by (auto simp: Mesh_init_def receiver_step_def add_peer_eq add_peer_handler_def
        mesh_get_peer_def mesh_add_peer_def Peer_init_def)
qed

theorem joined_on_unregistered_sender_witness:
  "\<not> is_in_mesh Mesh_init \<and>
   receiver_step env_silent 7 node_A bad_frame started = Raised UnicodeError started \<and>
   receiver_step env_silent 8 node_A hello_frame joined_A = Done joined_A \<and>
   receiver_step env_silent 7 node_A hello_frame started =
     Done (started\<lparr>mesh := (mesh started)\<lparr>link_peers := [BROADCAST_ADDR, node_A]\<rparr>,
       peers := [node_A \<mapsto> \<lparr>mac_address = node_A, failure_count = 0, last_seen = 7\<rparr>],
       is_in_mesh := True\<rparr>) \<and>
   receiver_step env_full 7 node_A hello_frame started = Done (started\<lparr>is_in_mesh := True\<rparr>) \<and>
   is_in_mesh (state_of (receiver_step env_silent 9 node_B bad_frame joined_A))"
proof -
  note a = joined_on_unregistered_sender[where env=env_silent and message=hello_frame and sender=node_A and s=joined_A and now=8]
  note b = joined_on_unregistered_sender[where env=env_silent and message=hello_frame and sender=node_A and s=started and now=7]
  note c = joined_on_unregistered_sender[where env=env_full and message=hello_frame and sender=node_A and s=started and now=7]
  note d = joined_on_unregistered_sender[where env=env_silent and message=bad_frame and sender=node_B and s=joined_A and now=9]
  note e = joined_on_unregistered_sender[where env=env_silent and message=bad_frame and sender=node_A and s=started and now=7]
  have 0: "decodes env_silent hello_frame" "decodes env_full hello_frame"
    "\<not> decodes env_silent bad_frame"
    by (simp_all add: env_silent_def env_full_def hello_decodes bad_frame_rejected)
  have 1: "node_A \<in> set (link_peers (mesh joined_A))" "is_in_mesh joined_A"
    by (simp_all add: joined_A_eq)
  have 2: "node_A \<notin> set (link_peers (mesh started))"
    "length (link_peers (mesh started)) < capacity env_silent"
    "capacity env_full \<le> length (link_peers (mesh started))"
    "link_peers (mesh started) = [BROADCAST_ADDR]" "peers started = Map.empty"
    by (simp_all add: started_eq env_silent_def env_full_def)
  from a 0 1 have A: "\<not> is_in_mesh Mesh_init \<and>
      receiver_step env_silent 8 node_A hello_frame joined_A = Done joined_A"
    by blast
  from b 0 2 have B: "receiver_step env_silent 7 node_A hello_frame started =
     Done (started\<lparr>mesh := (mesh started)\<lparr>link_peers := [BROADCAST_ADDR, node_A]\<rparr>,
       peers := [node_A \<mapsto> \<lparr>mac_address = node_A, failure_count = 0, last_seen = 7\<rparr>],
       is_in_mesh := True\<rparr>)" by simp
  from c 0 2 have C: "receiver_step env_full 7 node_A hello_frame started =
      Done (started\<lparr>is_in_mesh := True\<rparr>)"
    by blast
  from d 1 have D: "is_in_mesh (state_of (receiver_step env_silent 9 node_B bad_frame joined_A))"
    by blast
  from e 0 have E: "receiver_step env_silent 7 node_A bad_frame started =
      Raised UnicodeError started" by blast
  from A B C D E show ?thesis by blast
qed

text \<open>
  The claim as written fails with a driver that has room for the broadcast address only:
  the frame from \<open>node_A\<close> is the first one received, its registration is refused, the
  dictionary stays empty, and the flag is true afterwards.
\<close>

theorem joined_without_registration_counterexample:
  "start env_full Mesh_init = Done started \<and> \<not> is_in_mesh started \<and>
   mesh_add_peer env_full (mesh started) node_A = Inl OSError \<and>
   is_in_mesh (state_of (receiver_step env_full 7 node_A hello_frame started)) \<and>
   peers (state_of (receiver_step env_full 7 node_A hello_frame started)) = Map.empty \<and>
   link_peers (mesh (state_of (receiver_step env_full 7 node_A hello_frame started))) =
     [BROADCAST_ADDR]"
  using start_full
  by (simp add: started_eq receiver_step_def add_peer_eq add_peer_handler_def mesh_get_peer_def
      mesh_add_peer_def env_full_def hello_decodes)

text \<open>
  C2 (eviction), evaluated at the node that has heard \<open>node_A\<close>, with a driver that
  acknowledges nothing. \<open>send_message\<close> hands five frames to the driver and returns; the
  driver no longer has \<open>node_A\<close> registered, but \<open>node_A\<close> is still a key of the dictionary,
  with failure count 5. It is so for every address and state: \<open>remove_peer\<close> leaves the
  dictionary as it is, because the \<open>await\<close> of the driver's plain \<open>del_peer\<close> raises before
  the \<open>del\<close> statement.
\<close>

theorem eviction_keeps_dictionary_entry:
  "peers joined_A node_A = Some \<lparr>mac_address = node_A, failure_count = 0, last_seen = 7\<rparr> \<and>
   send_message env_silent ''Hi'' node_A joined_A = Done stale_A \<and>
   peers stale_A node_A = Some \<lparr>mac_address = node_A, failure_count = 5, last_seen = 7\<rparr> \<and>
   link_peers (mesh stale_A) = [BROADCAST_ADDR] \<and>
   filter is_send (trace stale_A) = replicate 5 (EvSend node_A ''Hi'' False) \<and>
   sent (mesh stale_A) = 5 \<and>
   peers (remove_peer a s) = peers s"
  using send_stale_A
  by (simp add: stale_A_eq joined_A_eq Peer_init_def numeral_eq_Suc)

text \<open>
  C3 (liveness probe), evaluated at the same node. The dictionary holds \<open>node_A\<close> alone, but
  the list the cycle walks is the driver's, which starts with the broadcast address: the
  cycle sends \<open>Hi\<close> there and ends with \<open>KeyError\<close>. \<open>node_A\<close> is not probed, there is no pause,
  and the notifier takes no further turn.
\<close>

theorem notify_cycle_aborts_at_broadcast:
  "dom (peers joined_A) = {node_A} \<and>
   mesh_get_peers (mesh joined_A) = [BROADCAST_ADDR, node_A] \<and>
   notify_cycle env_silent joined_A =
     Raised KeyError (joined_A\<lparr>mesh := (mesh joined_A)\<lparr>sent := 1\<rparr>,
                               trace := [EvSend BROADCAST_ADDR ''Hi'' False]\<rparr>) \<and>
   run env_silent [Frame 7 node_A hello_frame, NotifyTurn] (booted started) =
     \<lparr>node = joined_A\<lparr>mesh := (mesh joined_A)\<lparr>sent := 1\<rparr>,
                       trace := [EvSend BROADCAST_ADDR ''Hi'' False]\<rparr>,
      beacon = Testing, notifier = Crashed KeyError, receiver = Running\<rparr> \<and>
   run env_silent [Frame 7 node_A hello_frame, NotifyTurn, NotifyTurn] (booted started) =
     run env_silent [Frame 7 node_A hello_frame, NotifyTurn] (booted started)"
proof -
  have p: "peers joined_A BROADCAST_ADDR = None" by (simp add: joined_A_eq)
  have sm: "send_message env_silent ''Hi'' BROADCAST_ADDR joined_A =
     Raised KeyError (joined_A\<lparr>mesh := (mesh joined_A)\<lparr>sent := 1\<rparr>,
                               trace := [EvSend BROADCAST_ADDR ''Hi'' False]\<rparr>)"
    by (simp add: send_message_unknown[OF p] asend_snd) (simp add: joined_A_eq env_silent_def)
  have l: "mesh_get_peers (mesh joined_A) = [BROADCAST_ADDR, node_A]"
    by (simp add: joined_A_eq mesh_get_peers_def)
  have nc: "notify_cycle env_silent joined_A =
     Raised KeyError (joined_A\<lparr>mesh := (mesh joined_A)\<lparr>sent := 1\<rparr>,
                               trace := [EvSend BROADCAST_ADDR ''Hi'' False]\<rparr>)"
    by (simp add: notify_cycle_def l sm)
  have d: "dom (peers joined_A) = {node_A}" by (simp add: joined_A_eq)
  have r: "run env_silent [Frame 7 node_A hello_frame, NotifyTurn] (booted started) =
     \<lparr>node = joined_A\<lparr>mesh := (mesh joined_A)\<lparr>sent := 1\<rparr>,
                       trace := [EvSend BROADCAST_ADDR ''Hi'' False]\<rparr>,
      beacon = Testing, notifier = Crashed KeyError, receiver = Running\<rparr>"
    by (simp add: step_def booted_def receive_hello_started nc)
  have r2: "run env_silent [Frame 7 node_A hello_frame, NotifyTurn, NotifyTurn] (booted started) =
     run env_silent [Frame 7 node_A hello_frame, NotifyTurn] (booted started)"
    by (simp add: step_def booted_def receive_hello_started nc)
  from d l nc r r2 show ?thesis by blast
qed

text \<open>
  C4 (containment of per-peer failures), evaluated right after \<open>start\<close>, before any frame
  has arrived: the dictionary is empty, the driver's list holds the broadcast address, and
  the first cycle of \<open>notify_task\<close> calls \<open>send_message\<close> for it. The \<open>KeyError\<close> of the lookup
  leaves \<open>send_message\<close> and ends \<open>notify_task\<close>.
\<close>

theorem notify_task_crashes_after_start:
  "start env_silent Mesh_init = Done started \<and>
   peers started = Map.empty \<and>
   mesh_get_peers (mesh started) = [BROADCAST_ADDR] \<and>
   send_message env_silent ''Hi'' BROADCAST_ADDR started =
     Raised KeyError (started\<lparr>mesh := (mesh started)\<lparr>sent := 1\<rparr>,
                               trace := [EvSend BROADCAST_ADDR ''Hi'' False]\<rparr>) \<and>
   notify_cycle env_silent started =
     Raised KeyError (started\<lparr>mesh := (mesh started)\<lparr>sent := 1\<rparr>,
                               trace := [EvSend BROADCAST_ADDR ''Hi'' False]\<rparr>) \<and>
   notifier (step env_silent NotifyTurn (booted started)) = Crashed KeyError"
proof -
  have p: "peers started BROADCAST_ADDR = None" by (simp add: started_eq)
  have sm: "send_message env_silent ''Hi'' BROADCAST_ADDR started =
     Raised KeyError (started\<lparr>mesh := (mesh started)\<lparr>sent := 1\<rparr>,
                               trace := [EvSend BROADCAST_ADDR ''Hi'' False]\<rparr>)"
    by (simp add: send_message_unknown[OF p] asend_snd) (simp add: started_eq env_silent_def)
  have nc: "notify_cycle env_silent started =
     Raised KeyError (started\<lparr>mesh := (mesh started)\<lparr>sent := 1\<rparr>,
                               trace := [EvSend BROADCAST_ADDR ''Hi'' False]\<rparr>)"
    by (simp add: notify_cycle_def mesh_get_peers_def sm) (simp add: started_eq sm[unfolded started_eq])
  show ?thesis using start_silent sm nc
    by (simp add: booted_def step_def) (simp add: started_eq mesh_get_peers_def)
qed

text \<open>
  C5 (unknown address). When the address is not a key of the peers dictionary,
  \<open>send_message\<close> hands one frame to the driver and then raises \<open>KeyError\<close>, whatever the
  driver answered: the lookup fails on the success branch and on the failure branch alike.
  The situation is reached in every run: after \<open>start\<close>, along every schedule of the three
  tasks, the broadcast address is in the list \<open>get_peers\<close> returns and is not a key of the
  dictionary, so a cycle of \<open>notify_task\<close> begun in any such state ends with \<open>KeyError\<close>.
\<close>

theorem send_message_unknown_peer_raises:
  "(peers s a = None \<longrightarrow>
      send_message env m a s = Raised KeyError (snd (asend env a m s)) \<and>
      trace (snd (asend env a m s)) = trace s @ [EvSend a m (send_ok env (sent (mesh s)))]) \<and>
   (start env Mesh_init = Done s0 \<longrightarrow>
      BROADCAST_ADDR \<in> set (mesh_get_peers (mesh (node (run env ins (booted s0))))) \<and>
      peers (node (run env ins (booted s0))) BROADCAST_ADDR = None \<and>
      (\<exists>s'. notify_cycle env (node (run env ins (booted s0))) = Raised KeyError s'))"
proof (intro conjI impI)
  assume "peers s a = None"
  then show "send_message env m a s = Raised KeyError (snd (asend env a m s))"
    by (rule send_message_unknown)
next
  show "trace (snd (asend env a m s)) = trace s @ [EvSend a m (send_ok env (sent (mesh s)))]"
    by (simp add: asend_snd)
next
  assume st: "start env Mesh_init = Done s0"
  have "bcast_inv (node (booted s0))" using bcast_inv_start[OF st] by (simp add: booted_def)
  from bcast_inv_run[OF this, of env ins]
  have inv: "bcast_inv (node (run env ins (booted s0)))" .
  then show "BROADCAST_ADDR \<in> set (mesh_get_peers (mesh (node (run env ins (booted s0)))))"
    and "peers (node (run env ins (booted s0))) BROADCAST_ADDR = None"
    by (simp_all add: bcast_inv_def mesh_get_peers_def)
  from inv show "\<exists>s'. notify_cycle env (node (run env ins (booted s0))) = Raised KeyError s'"
    by (auto simp: bcast_inv_def intro: notify_cycle_unknown)
qed

theorem send_message_unknown_peer_raises_witness:
  "send_message env_silent ''Hi'' BROADCAST_ADDR started =
     Raised KeyError (snd (asend env_silent BROADCAST_ADDR ''Hi'' started)) \<and>
   trace (snd (asend env_silent BROADCAST_ADDR ''Hi'' started)) =
     [EvSend BROADCAST_ADDR ''Hi'' False] \<and>
   BROADCAST_ADDR \<in> set (mesh_get_peers (mesh (node
     (run env_silent [Frame 7 node_A hello_frame] (booted started))))) \<and>
   peers (node (run env_silent [Frame 7 node_A hello_frame] (booted started)))
     BROADCAST_ADDR = None \<and>
   (\<exists>s'. notify_cycle env_silent
      (node (run env_silent [Frame 7 node_A hello_frame] (booted started))) =
        Raised KeyError s')"
proof -
  have h: "peers started BROADCAST_ADDR = None" by (simp add: started_eq)
  have t: "trace started = []" "send_ok env_silent (sent (mesh started)) = False"
    by (simp_all add: started_eq env_silent_def)
  from send_message_unknown_peer_raises[of started BROADCAST_ADDR env_silent "''Hi''" started
      "[Frame 7 node_A hello_frame]"] h start_silent t
  show ?thesis by simp
qed

text \<open>
  C6 (reset). Let \<open>P\<close> be a key of the peers dictionary, with any failure count. When the
  \<open>(k+1)\<close>-th frame handed to the driver during a call of \<open>send_message\<close> to \<open>P\<close> is the first
  one acknowledged, and the loop gets that far (\<open>k = 0\<close>, or the count plus \<open>k\<close> stays below
  the threshold 5), the call returns normally right after that frame, with the failure count
  of \<open>P\<close> set to 0 and nothing else of the dictionary changed.
\<close>

theorem reset_on_success:
  assumes "peers s a = Some p"
    and "\<forall>i<k. \<not> send_ok env (sent (mesh s) + i)"
    and "send_ok env (sent (mesh s) + k)"
    and "k = 0 \<or> failure_count p + int k < 5"
  shows "\<exists>s'. send_message env m a s = Done s' \<and>
           peers s' = (peers s)(a \<mapsto> p\<lparr>failure_count := 0\<rparr>) \<and>
           sent (mesh s') = sent (mesh s) + k + 1 \<and>
           last (trace s') = EvSend a m True"
proof -
  from send_message_success_at[OF assms, of m]
  obtain s' where r: "send_message env m a s = Done s'"
    "peers s' = (peers s)(a \<mapsto> p\<lparr>failure_count := 0\<rparr>)"
    "sent (mesh s') = sent (mesh s) + k + 1"
    "trace s' = trace s @ concat (replicate k [EvSend a m False, EvSleep 1]) @ [EvSend a m True]"
    by blast
  from r(4) have "last (trace s') = EvSend a m True" by simp
  with r(1-3) show ?thesis by blast
qed

theorem reset_on_success_witness:
  "\<exists>s'. send_message env_flaky ''Hi'' node_A joined_A = Done s' \<and>
      peers s' = [node_A \<mapsto> \<lparr>mac_address = node_A, failure_count = 0, last_seen = 7\<rparr>] \<and>
      sent (mesh s') = 3 \<and> last (trace s') = EvSend node_A ''Hi'' True"
proof -
  have h1: "peers joined_A node_A = Some (Peer_init node_A 7)" by (simp add: joined_A_eq)
  have h2: "\<forall>i<2. \<not> send_ok env_flaky (sent (mesh joined_A) + i)"
    by (simp add: env_flaky_def joined_A_eq)
  have h3: "send_ok env_flaky (sent (mesh joined_A) + 2)" by (simp add: env_flaky_def)
  have h4: "(2::nat) = 0 \<or> failure_count (Peer_init node_A 7) + int 2 < 5"
    by (simp add: Peer_init_def)
  from reset_on_success[OF h1 h2 h3 h4, of "''Hi''"]
  show ?thesis by (simp add: Peer_init_def joined_A_eq numeral_3_eq_3)
qed



text \<open>
  C8 (beacon), as amended. While \<open>is_in_mesh\<close> is false, each passage of the beacon task
  through its loop is a test of the flag, after which the task is suspended in the send,
  and then exactly one frame \<open>--hello--\<close> for the broadcast address followed by a sleep of
  one time unit. A test that finds the flag true ends the task without a frame. From a
  state in which the flag is true, no schedule of the three tasks adds a beacon frame
  except the one the task owes when it is suspended in the send, its test having preceded
  the change of the flag: the frames sent and the frame owed together stay what they were,
  so at most one frame is added, and none when the task is not suspended in the send.
  Once the task has ended it stays ended and adds no beacon frame, whatever becomes of the
  peers and of the flag.
\<close>

theorem beacon_task_behaviour:
  "(receiver sys = Running \<and> beacon sys = Testing \<and> \<not> is_in_mesh (node sys) \<longrightarrow>
      step env BeaconTurn sys = sys\<lparr>beacon := Sending\<rparr>) \<and>
   (receiver sys = Running \<and> beacon sys = Sending \<longrightarrow>
      step env BeaconTurn sys = sys\<lparr>node := beacon_body env (node sys), beacon := Testing\<rparr> \<and>
      trace (beacon_body env (node sys)) =
        trace (node sys) @
          [EvSend BROADCAST_ADDR ''--hello--'' (send_ok env (sent (mesh (node sys)))), EvSleep 1]) \<and>
   (receiver sys = Running \<and> beacon sys = Testing \<and> is_in_mesh (node sys) \<longrightarrow>
      step env BeaconTurn sys = sys\<lparr>beacon := Exited\<rparr>) \<and>
   (is_in_mesh (node sys) \<longrightarrow>
      beacons (trace (node (run env ins sys))) + pending (beacon (run env ins sys)) =
      beacons (trace (node sys)) + pending (beacon sys)) \<and>
   (is_in_mesh (node sys) \<longrightarrow>
      beacons (trace (node (run env ins sys))) \<le> beacons (trace (node sys)) + 1) \<and>
   (is_in_mesh (node sys) \<and> beacon sys \<noteq> Sending \<longrightarrow>
      beacons (trace (node (run env ins sys))) = beacons (trace (node sys))) \<and>
   (beacon sys = Exited \<longrightarrow>
      beacon (run env ins sys) = Exited \<and>
      beacons (trace (node (run env ins sys))) = beacons (trace (node sys)))"
proof -
  have turns: "(receiver sys = Running \<and> beacon sys = Testing \<and> \<not> is_in_mesh (node sys) \<longrightarrow>
      step env BeaconTurn sys = sys\<lparr>beacon := Sending\<rparr>) \<and>
   (receiver sys = Running \<and> beacon sys = Sending \<longrightarrow>
      step env BeaconTurn sys = sys\<lparr>node := beacon_body env (node sys), beacon := Testing\<rparr> \<and>
      trace (beacon_body env (node sys)) =
        trace (node sys) @
          [EvSend BROADCAST_ADDR ''--hello--'' (send_ok env (sent (mesh (node sys)))), EvSleep 1]) \<and>
   (receiver sys = Running \<and> beacon sys = Testing \<and> is_in_mesh (node sys) \<longrightarrow>
      step env BeaconTurn sys = sys\<lparr>beacon := Exited\<rparr>)"
    by (simp add: step_def beacon_test_def beacon_body_frame)
  have cons: "is_in_mesh (node sys) \<longrightarrow>
      beacons (trace (node (run env ins sys))) + pending (beacon (run env ins sys)) =
      beacons (trace (node sys)) + pending (beacon sys)"
    using run_joined_beacons[of sys env ins] by blast
  have le: "is_in_mesh (node sys) \<longrightarrow>
      beacons (trace (node (run env ins sys))) \<le> beacons (trace (node sys)) + 1"
    using cons pending_le_1[of "beacon sys"] by linarith
  have eq: "is_in_mesh (node sys) \<and> beacon sys \<noteq> Sending \<longrightarrow>
      beacons (trace (node (run env ins sys))) = beacons (trace (node sys))"
    using cons run_joined_not_sending[of sys env ins] pending_0[of "beacon sys"]
      pending_0[of "beacon (run env ins sys)"] by auto
  have ex: "beacon sys = Exited \<longrightarrow>
      beacon (run env ins sys) = Exited \<and>
      beacons (trace (node (run env ins sys))) = beacons (trace (node sys))"
    using run_exited[of sys env ins] by blast
  from turns cons le eq ex show ?thesis by blast
qed

theorem beacon_task_behaviour_witness:
  "step env_silent BeaconTurn (booted started) = (booted started)\<lparr>beacon := Sending\<rparr> \<and>
   trace (node (step env_silent BeaconTurn ((booted started)\<lparr>beacon := Sending\<rparr>))) =
     [EvSend BROADCAST_ADDR ''--hello--'' False, EvSleep 1] \<and>
   step env_silent BeaconTurn (booted joined_A) = (booted joined_A)\<lparr>beacon := Exited\<rparr> \<and>
   beacons (trace (node (run env_silent [BeaconTurn, NotifyTurn, BeaconTurn]
      (booted joined_A)))) = 0 \<and>
   beacon (run env_silent [Frame 9 node_B hello_frame, BeaconTurn, NotifyTurn]
      ((booted started)\<lparr>beacon := Exited\<rparr>)) = Exited \<and>
   beacons (trace (node (run env_silent [Frame 9 node_B hello_frame, BeaconTurn, NotifyTurn]
      ((booted started)\<lparr>beacon := Exited\<rparr>)))) = 0"
proof -
  note a = beacon_task_behaviour[of "booted started" env_silent "[]"]
  note a' = beacon_task_behaviour[of "(booted started)\<lparr>beacon := Sending\<rparr>" env_silent "[]"]
  note b = beacon_task_behaviour[of "booted joined_A" env_silent "[BeaconTurn, NotifyTurn, BeaconTurn]"]
  note c = beacon_task_behaviour[of "(booted started)\<lparr>beacon := Exited\<rparr>" env_silent
      "[Frame 9 node_B hello_frame, BeaconTurn, NotifyTurn]"]
  have 1: "receiver (booted started) = Running" "beacon (booted started) = Testing"
    "\<not> is_in_mesh (node (booted started))"
    by (simp_all add: booted_def started_eq)
  have sending: "receiver ((booted started)\<lparr>beacon := Sending\<rparr>) = Running"
    "beacon ((booted started)\<lparr>beacon := Sending\<rparr>) = Sending"
    "trace (node ((booted started)\<lparr>beacon := Sending\<rparr>)) = []"
    "send_ok env_silent (sent (mesh (node ((booted started)\<lparr>beacon := Sending\<rparr>)))) = False"
    by (simp_all add: booted_def started_eq env_silent_def)
  have 2: "receiver (booted joined_A) = Running" "beacon (booted joined_A) = Testing"
    "is_in_mesh (node (booted joined_A))" "trace (node (booted joined_A)) = []"
    by (simp_all add: booted_def joined_A_eq)
  have 3: "beacon ((booted started)\<lparr>beacon := Exited\<rparr>) = Exited"
    "trace (node ((booted started)\<lparr>beacon := Exited\<rparr>)) = []"
    by (simp_all add: booted_def started_eq)
  from a 1 have A: "step env_silent BeaconTurn (booted started) = (booted started)\<lparr>beacon := Sending\<rparr>"
    by blast
  from a' sending have A': "trace (node (step env_silent BeaconTurn ((booted started)\<lparr>beacon := Sending\<rparr>))) =
     [EvSend BROADCAST_ADDR ''--hello--'' False, EvSleep 1]" by simp
  from b 2 have B1: "step env_silent BeaconTurn (booted joined_A) = (booted joined_A)\<lparr>beacon := Exited\<rparr>"
    by blast
  have "beacon (booted joined_A) \<noteq> Sending" using 2(2) by simp
  with b 2 have B2: "beacons (trace (node (run env_silent [BeaconTurn, NotifyTurn, BeaconTurn]
      (booted joined_A)))) = 0" by (simp add: beacons_def del: run.simps)
  from c 3 have C: "beacon (run env_silent [Frame 9 node_B hello_frame, BeaconTurn, NotifyTurn]
      ((booted started)\<lparr>beacon := Exited\<rparr>)) = Exited \<and>
   beacons (trace (node (run env_silent [Frame 9 node_B hello_frame, BeaconTurn, NotifyTurn]
      ((booted started)\<lparr>beacon := Exited\<rparr>)))) = 0" by (simp add: beacons_def del: run.simps)
  from A A' B1 B2 C show ?thesis by blast
qed

text \<open>
  The claim as written fails when the receiver runs while the beacon task is suspended in
  its send: the task tests the flag, the frame from \<open>node_A\<close> sets it, and the beacon frame
  goes out afterwards.
\<close>

theorem beacon_after_joined_counterexample:
  "is_in_mesh (node (run env_silent [BeaconTurn, Frame 7 node_A hello_frame] (booted started))) \<and>
   trace (node (run env_silent [BeaconTurn, Frame 7 node_A hello_frame] (booted started))) = [] \<and>
   trace (node (run env_silent [BeaconTurn, Frame 7 node_A hello_frame, BeaconTurn]
     (booted started))) = [EvSend BROADCAST_ADDR ''--hello--'' False, EvSleep 1]"
proof -
  have f: "\<not> is_in_mesh started" by (simp add: started_eq)
  have r1: "run env_silent [BeaconTurn, Frame 7 node_A hello_frame] (booted started) =
     \<lparr>node = joined_A, beacon = Sending, notifier = Running, receiver = Running\<rparr>"
    using f by (simp add: step_def booted_def beacon_test_def receive_hello_started)
  have r2: "run env_silent [BeaconTurn, Frame 7 node_A hello_frame, BeaconTurn] (booted started) =
     \<lparr>node = beacon_body env_silent joined_A, beacon = Testing, notifier = Running,
      receiver = Running\<rparr>"
    using f by (simp add: step_def booted_def beacon_test_def receive_hello_started)
  show ?thesis unfolding r1 r2
    by (simp add: beacon_body_frame) (simp add: joined_A_eq env_silent_def)
qed

text \<open>
  C9 (insertion), as amended. \<open>add_peer\<close> of an address that is registered with the driver
  changes nothing: no second entry, no entry altered. \<open>add_peer\<close> of an address that is not
  registered, when the driver has room, registers it and stores under it a new \<open>Peer\<close> with
  failure count 0 and the current time, and changes no other entry. When the driver's list
  is full, \<open>add_peer\<close> changes nothing.
\<close>

theorem add_peer_by_registration:
  "(a \<in> set (link_peers (mesh s)) \<longrightarrow> add_peer env now a s = s) \<and>
   (a \<notin> set (link_peers (mesh s)) \<and> length (link_peers (mesh s)) < capacity env \<longrightarrow>
      add_peer env now a s =
        s\<lparr>mesh := (mesh s)\<lparr>link_peers := link_peers (mesh s) @ [a]\<rparr>,
          peers := (peers s)(a \<mapsto> \<lparr>mac_address = a, failure_count = 0, last_seen = now\<rparr>)\<rparr>) \<and>
   (a \<notin> set (link_peers (mesh s)) \<and> capacity env \<le> length (link_peers (mesh s)) \<longrightarrow>
      add_peer env now a s = s)"
  by (auto simp: add_peer_eq add_peer_handler_def mesh_add_peer_def Peer_init_def)

theorem add_peer_by_registration_witness:
  "add_peer env_silent 8 node_A joined_A = joined_A \<and>
   add_peer env_silent 9 node_B joined_A =
     joined_A\<lparr>mesh := (mesh joined_A)\<lparr>link_peers := [BROADCAST_ADDR, node_A, node_B]\<rparr>,
       peers := (peers joined_A)(node_B \<mapsto> \<lparr>mac_address = node_B, failure_count = 0, last_seen = 9\<rparr>)\<rparr> \<and>
   add_peer env_full 7 node_A started = started"
proof -
  note a = add_peer_by_registration[of node_A joined_A env_silent 8]
  note b = add_peer_by_registration[of node_B joined_A env_silent 9]
  note c = add_peer_by_registration[of node_A started env_full 7]
  have 1: "node_A \<in> set (link_peers (mesh joined_A))"
    "link_peers (mesh joined_A) = [BROADCAST_ADDR, node_A]"
    by (simp_all add: joined_A_eq)
  have 2: "node_B \<notin> set (link_peers (mesh joined_A))"
    "length (link_peers (mesh joined_A)) < capacity env_silent"
    "node_A \<notin> set (link_peers (mesh started))"
    "capacity env_full \<le> length (link_peers (mesh started))"
    by (simp_all add: joined_A_eq started_eq env_silent_def env_full_def)
  from a 1(1) have A: "add_peer env_silent 8 node_A joined_A = joined_A" by blast
  from b 2 1(2) have B: "add_peer env_silent 9 node_B joined_A =
     joined_A\<lparr>mesh := (mesh joined_A)\<lparr>link_peers := [BROADCAST_ADDR, node_A, node_B]\<rparr>,
       peers := (peers joined_A)(node_B \<mapsto> \<lparr>mac_address = node_B, failure_count = 0, last_seen = 9\<rparr>)\<rparr>"
    by simp
  from c 2 have C: "add_peer env_full 7 node_A started = started" by blast
  from A B C show ?thesis by blast
qed

text \<open>
  The claim as written fails in both halves. An address that is a key of the dictionary
  but no longer registered (\<open>node_A\<close>, after the reliable send that failed five times) gets a
  new entry: its failure count goes from 5 to 0. An address that is not a key gets no entry
  when the driver refuses the registration (its list is full), nor does the broadcast
  address, which \<open>start\<close> registered.
\<close>

theorem add_peer_counterexample:
  "send_message env_silent ''Hi'' node_A joined_A = Done stale_A \<and>
   peers stale_A node_A = Some \<lparr>mac_address = node_A, failure_count = 5, last_seen = 7\<rparr> \<and>
   peers (add_peer env_silent 9 node_A stale_A) node_A =
     Some \<lparr>mac_address = node_A, failure_count = 0, last_seen = 9\<rparr> \<and>
   start env_full Mesh_init = Done started \<and>
   peers started node_A = None \<and>
   mesh_add_peer env_full (mesh started) node_A = Inl OSError \<and>
   peers (add_peer env_full 7 node_A started) node_A = None \<and>
   peers started BROADCAST_ADDR = None \<and>
   peers (add_peer env_silent 7 BROADCAST_ADDR started) BROADCAST_ADDR = None"
  using start_full send_stale_A
  by (simp add: started_eq stale_A_eq add_peer_eq add_peer_handler_def mesh_add_peer_def
      env_full_def env_silent_def Peer_init_def)

text \<open>
  C10 (join monotonicity). Once \<open>is_in_mesh\<close> is true it is true after every schedule of the
  three tasks, after \<open>remove_peer\<close> of any address and after \<open>send_message\<close> to any address,
  whether that call succeeds, takes its eviction path or raises.
\<close>

theorem join_monotone:
  assumes "is_in_mesh (node sys)"
  shows "is_in_mesh (node (run env ins sys)) \<and>
         is_in_mesh (remove_peer a (node sys)) \<and>
         is_in_mesh (state_of (send_message env m a (node sys)))"
  using assms run_joined[of sys env ins] send_message_frame[of env m a "node sys"]
  by simp

theorem join_monotone_witness:
  "is_in_mesh (node (run env_silent [NotifyTurn, BeaconTurn, Frame 9 node_B hello_frame]
      (booted joined_A))) \<and>
   is_in_mesh (remove_peer node_A joined_A) \<and>
   link_peers (mesh (remove_peer node_A joined_A)) = [BROADCAST_ADDR] \<and>
   is_in_mesh (state_of (send_message env_silent ''Hi'' node_A joined_A))"
proof -
  have j: "is_in_mesh (node (booted joined_A))" by (simp add: booted_def joined_A_eq)
  have n: "node (booted joined_A) = joined_A" by (simp add: booted_def)
  have e: "link_peers (mesh (remove_peer node_A joined_A)) = [BROADCAST_ADDR]"
    by (simp add: joined_A_eq remove_peer_eq)
  from join_monotone[OF j, of env_silent
      "[NotifyTurn, BeaconTurn, Frame 9 node_B hello_frame]" node_A "''Hi''"]
  have "is_in_mesh (node (run env_silent [NotifyTurn, BeaconTurn, Frame 9 node_B hello_frame]
      (booted joined_A))) \<and>
   is_in_mesh (remove_peer node_A joined_A) \<and>
   is_in_mesh (state_of (send_message env_silent ''Hi'' node_A joined_A))"
    by (simp only: n)
  with e show ?thesis by blast
qed

end
